theory Spec2Isabelle
  imports Main "HOL-Library.AList" "HOL-Library.Code_Target_Numeral"
begin

section \<open>Input nodes\<close>

text \<open>
  Every decoder of the package \<^verbatim>\<open>yaml\<close> receives \<^verbatim>\<open>data []byte\<close>, one JSON value, and hands it
  to \<^verbatim>\<open>json.Unmarshal\<close> with targets of different Go types. The value is modelled by its
  syntax tree. A string node carries the decoded Go string. A number node carries its
  literal text, because \<^verbatim>\<open>encoding/json\<close> reads the same literal differently for an
  \<^verbatim>\<open>int64\<close> target (\<^verbatim>\<open>strconv.ParseInt\<close> of the text) and for an \<^verbatim>\<open>interface{}\<close> target
  (\<^verbatim>\<open>strconv.ParseFloat\<close> of the text).
\<close>

datatype json =
    JNull
  | JBool bool
  | JNumber string
  | JString string
  | JArray "json list"
  | JObject "(string \<times> json) list"

text \<open>The error \<^verbatim>\<open>json.Unmarshal\<close> reports for a node it cannot store in its target: the
  description of the JSON value (the field \<^verbatim>\<open>Value\<close> of \<^verbatim>\<open>UnmarshalTypeError\<close>). No decoder
  of this package returns it; each only tests it against \<^verbatim>\<open>nil\<close>.\<close>

datatype json_error = UnmarshalTypeError string

fun json_kind :: "json \<Rightarrow> string" where
  "json_kind JNull = ''null''"
| "json_kind (JBool b) = ''bool''"
| "json_kind (JNumber lit) = ''number '' @ lit"
| "json_kind (JString s) = ''string''"
| "json_kind (JArray xs) = ''array''"
| "json_kind (JObject kvs) = ''object''"

section \<open>strconv.ParseInt, base 10, 64 bits\<close>

datatype num_err = ErrSyntax | ErrRange

definition digit_of :: "char \<Rightarrow> nat option" where
  "digit_of c = (let k = (of_char c :: nat) in if 48 \<le> k \<and> k \<le> 57 then Some (k - 48) else None)"

definition maxUint64 :: nat where
  "maxUint64 = 2 ^ 64 - 1"

definition cutoff64 :: nat where
  "cutoff64 = maxUint64 div 10 + 1"

text \<open>The digit loop of \<^verbatim>\<open>ParseUint\<close>: a byte that is no decimal digit is a syntax error;
  the range error is raised as soon as the next step would leave 64 bits, before the rest
  of the text is looked at.\<close>

fun ParseUint_loop :: "string \<Rightarrow> nat \<Rightarrow> num_err + nat" where
  "ParseUint_loop [] n = Inr n"
| "ParseUint_loop (c # cs) n =
     (case digit_of c of
        None \<Rightarrow> Inl ErrSyntax
      | Some d \<Rightarrow>
          if cutoff64 \<le> n then Inl ErrRange
          else if maxUint64 < n * 10 + d then Inl ErrRange
          else ParseUint_loop cs (n * 10 + d))"

definition ParseUint :: "string \<Rightarrow> num_err + nat" where
  "ParseUint s = (if s = [] then Inl ErrSyntax else ParseUint_loop s 0)"

text \<open>\<^verbatim>\<open>ParseInt(s, 10, 64)\<close> returns a value and an error, as in Go: an optional sign, then
  \<^verbatim>\<open>ParseUint\<close>; a magnitude outside the signed range is a range error with the nearest
  bound as value.\<close>

definition ParseInt :: "string \<Rightarrow> int \<times> num_err option" where
  "ParseInt s =
     (if s = [] then (0, Some ErrSyntax)
      else
        let neg = (hd s = CHR ''-'');
            s1 = (if hd s = CHR ''+'' \<or> hd s = CHR ''-'' then tl s else s)
        in case ParseUint s1 of
             Inl ErrSyntax \<Rightarrow> (0, Some ErrSyntax)
           | Inl ErrRange \<Rightarrow> (if neg then (- (2 ^ 63), Some ErrRange) else (2 ^ 63 - 1, Some ErrRange))
           | Inr un \<Rightarrow>
               if \<not> neg \<and> 2 ^ 63 \<le> un then (2 ^ 63 - 1, Some ErrRange)
               else if neg \<and> 2 ^ 63 < un then (- (2 ^ 63), Some ErrRange)
               else (if neg then - int un else int un, None))"

section \<open>json.Unmarshal into the scalar targets\<close>

text \<open>
  Each function gives what the target variable holds after the call together with the
  error. In the source every target is declared immediately before the call, so it starts
  from the zero value of its type; a \<^verbatim>\<open>null\<close> node is accepted and stores nothing, and a node
  of the wrong shape leaves the variable as it was and reports an error.
\<close>

definition unmarshal_int64 :: "json \<Rightarrow> int \<times> json_error option" where
  "unmarshal_int64 j =
     (case j of
        JNull \<Rightarrow> (0, None)
      | JNumber lit \<Rightarrow>
          (case ParseInt lit of
             (n, None) \<Rightarrow> (n, None)
           | (n, Some e) \<Rightarrow> (0, Some (UnmarshalTypeError (json_kind j))))
      | _ \<Rightarrow> (0, Some (UnmarshalTypeError (json_kind j))))"

definition unmarshal_string :: "json \<Rightarrow> string \<times> json_error option" where
  "unmarshal_string j =
     (case j of
        JNull \<Rightarrow> ([], None)
      | JString s \<Rightarrow> (s, None)
      | _ \<Rightarrow> ([], Some (UnmarshalTypeError (json_kind j))))"

definition unmarshal_bool :: "json \<Rightarrow> bool \<times> json_error option" where
  "unmarshal_bool j =
     (case j of
        JNull \<Rightarrow> (False, None)
      | JBool b \<Rightarrow> (b, None)
      | _ \<Rightarrow> (False, Some (UnmarshalTypeError (json_kind j))))"

text \<open>
  The anonymous struct \<^verbatim>\<open>out2\<close> of the two selector decoders. A node that is neither an
  object nor \<^verbatim>\<open>null\<close> is a type error and leaves the struct at its zero value \<open>r0\<close>. How
  the members of an object fill the struct (matching of keys and tags, the decoders of the nested
  configuration types, which are declared outside the two source files) is left to the
  parameter \<open>obj\<close>.
\<close>

definition unmarshal_struct ::
  "((string \<times> json) list \<Rightarrow> 'r \<Rightarrow> 'r \<times> json_error option) \<Rightarrow> 'r \<Rightarrow> json \<Rightarrow> 'r \<times> json_error option" where
  "unmarshal_struct obj r0 j =
     (case j of
        JNull \<Rightarrow> (r0, None)
      | JObject kvs \<Rightarrow> obj kvs r0
      | _ \<Rightarrow> (r0, Some (UnmarshalTypeError (json_kind j))))"

section \<open>Decoded values and errors\<close>

text \<open>A value of type \<^verbatim>\<open>interface{}\<close>: the dynamic types the type switches of
  \<^verbatim>\<open>toStrings\<close> and \<^verbatim>\<open>toDurations\<close> distinguish, and those \<^verbatim>\<open>json.Unmarshal\<close> stores. A
  \<^verbatim>\<open>float64\<close> is kept as the literal it was read from.\<close>

datatype iface =
    INil
  | IBool bool
  | IFloat64 string
  | IString string
  | IInt int
  | IInt64 int
  | ISlice "iface list"
  | IMap "(string \<times> iface) list"

text \<open>The verb \<^verbatim>\<open>%T\<close> of \<^verbatim>\<open>fmt\<close>.\<close>

fun type_name :: "iface \<Rightarrow> string" where
  "type_name INil = ''<nil>''"
| "type_name (IBool b) = ''bool''"
| "type_name (IFloat64 f) = ''float64''"
| "type_name (IString s) = ''string''"
| "type_name (IInt n) = ''int''"
| "type_name (IInt64 n) = ''int64''"
| "type_name (ISlice xs) = ''[]interface {}''"
| "type_name (IMap kvs) = ''map[string]interface {}''"

text \<open>A Go slice is either \<^verbatim>\<open>nil\<close> or holds a sequence; both have a length.\<close>

datatype 'a slice = NilSlice | Slice "'a list"

fun elems :: "'a slice \<Rightarrow> 'a list" where
  "elems NilSlice = []"
| "elems (Slice xs) = xs"

text \<open>
  The errors the decoders return, named after the taxonomy of the specification:
  \<^item> \<open>ShapeMismatch msg\<close> is \<^verbatim>\<open>errors.New(msg)\<close>, the last statement of a decoder;
  \<^item> \<open>NumError s e\<close> is the error of \<^verbatim>\<open>strconv.ParseInt\<close> on \<open>s\<close>;
  \<^item> \<open>UnitParse msg\<close> is the error of \<^verbatim>\<open>units.RAMInBytes\<close>;
  \<^item> \<open>TypeMismatch v t\<close> is \<^verbatim>\<open>"cannot unmarshal %v of type %T into a string value"\<close>;
  \<^item> \<open>DurationMismatch v\<close> is \<^verbatim>\<open>"cannot unmarshal %v into type duration"\<close>;
  \<^item> \<open>UnknownShorthand s\<close> is \<^verbatim>\<open>"unknown runtime type: %s"\<close>.
\<close>

datatype error =
    ShapeMismatch string
  | NumError string num_err
  | UnitParse string
  | TypeMismatch iface string
  | DurationMismatch iface
  | UnknownShorthand string

section \<open>StringorInt\<close>

text \<open>The receiver \<open>s\<close> is passed in and returned: it is assigned only on the two
  successful paths.\<close>

definition StringorInt_UnmarshalJSON :: "int \<Rightarrow> json \<Rightarrow> int \<times> error option" where
  "StringorInt_UnmarshalJSON s data =
     (case unmarshal_int64 data of
        (intType, None) \<Rightarrow> (intType, None)
      | (_, Some _) \<Rightarrow>
          (case unmarshal_string data of
             (stringType, None) \<Rightarrow>
               (case ParseInt stringType of
                  (intType, Some err) \<Rightarrow> (s, Some (NumError stringType err))
                | (intType, None) \<Rightarrow> (intType, None))
           | (_, Some _) \<Rightarrow> (s, Some (ShapeMismatch ''failed to unmarshal string or number''))))"

section \<open>Workspace\<close>

record Workspace =
  Disabled :: bool
  Path :: string

text \<open>
  The first test is \<^verbatim>\<open>err != nil\<close>: the shorthand branch runs when the node is \<^emph>\<open>not\<close> a
  boolean, with \<^verbatim>\<open>out1\<close> still \<^verbatim>\<open>false\<close>. The second test is \<^verbatim>\<open>err != nil\<close> as well: the
  members of \<^verbatim>\<open>out2\<close> are copied when the struct decode failed, and otherwise the method
  returns \<^verbatim>\<open>err\<close>, which is \<^verbatim>\<open>nil\<close> there.
\<close>

definition Workspace_UnmarshalJSON ::
  "((string \<times> json) list \<Rightarrow> Workspace \<Rightarrow> Workspace \<times> json_error option) \<Rightarrow>
   Workspace \<Rightarrow> json \<Rightarrow> Workspace \<times> error option" where
  "Workspace_UnmarshalJSON obj v data =
     (case unmarshal_bool data of
        (out1, Some _) \<Rightarrow> (v\<lparr>Disabled := \<not> out1\<rparr>, None)
      | (out1, None) \<Rightarrow>
          (case unmarshal_struct obj \<lparr>Disabled = False, Path = []\<rparr> data of
             (out2, Some _) \<Rightarrow> (v\<lparr>Disabled := Disabled out2, Path := Path out2\<rparr>, None)
           | (out2, None) \<Rightarrow> (v, None)))"


section \<open>Runtime\<close>

text \<open>
  The nested configurations \<^verbatim>\<open>RuntimeCloud\<close>, \<^verbatim>\<open>RuntimeKubernetes\<close> and \<^verbatim>\<open>RuntimeInstance\<close>
  are declared outside the two source files: they are the type parameters \<open>'c\<close>, \<open>'k\<close>
  and \<open>'i\<close>, and a pointer to one is an option.
\<close>

record ('c, 'k, 'i) Runtime =
  Cloud :: "'c option"
  Kubernetes :: "'k option"
  VM :: "'i option"
  Shell :: bool

text \<open>
  \<open>newCloud\<close>, \<open>newInstance\<close> and \<open>newKubernetes\<close> are the zero values that
  \<^verbatim>\<open>new(RuntimeCloud)\<close>, \<^verbatim>\<open>new(RuntimeInstance)\<close> and \<^verbatim>\<open>new(RuntimeKubernetes)\<close> allocate. As in
  \<^verbatim>\<open>Workspace\<close>, both tests are \<^verbatim>\<open>err != nil\<close>: the \<^verbatim>\<open>switch\<close> on \<^verbatim>\<open>out1\<close> runs when the node
  is not a string, and the fields of \<^verbatim>\<open>out2\<close> are copied when the struct decode failed.
\<close>

definition Runtime_UnmarshalJSON ::
  "'c \<Rightarrow> 'i \<Rightarrow> 'k \<Rightarrow>
   ((string \<times> json) list \<Rightarrow> ('c, 'k, 'i) Runtime \<Rightarrow> ('c, 'k, 'i) Runtime \<times> json_error option) \<Rightarrow>
   ('c, 'k, 'i) Runtime \<Rightarrow> json \<Rightarrow> ('c, 'k, 'i) Runtime \<times> error option" where
  "Runtime_UnmarshalJSON newCloud newInstance newKubernetes obj v data =
     (case unmarshal_string data of
        (out1, Some _) \<Rightarrow>
          if out1 = ''cloud'' then (v\<lparr>Cloud := Some newCloud\<rparr>, None)
          else if out1 = ''vm'' then (v\<lparr>VM := Some newInstance\<rparr>, None)
          else if out1 = ''kubernetes'' then (v\<lparr>Kubernetes := Some newKubernetes\<rparr>, None)
          else if out1 = ''shell'' then (v\<lparr>Shell := True\<rparr>, None)
          else (v, Some (UnknownShorthand out1))
      | (out1, None) \<Rightarrow>
          (case unmarshal_struct obj \<lparr>Cloud = None, Kubernetes = None, VM = None, Shell = False\<rparr> data of
             (out2, Some _) \<Rightarrow>
               (v\<lparr>Cloud := Cloud out2, Kubernetes := Kubernetes out2, VM := VM out2,
                  Shell := Shell out2\<rparr>, None)
           | (out2, None) \<Rightarrow> (v, None)))"

section \<open>MemStringorInt\<close>

definition is_digit :: "char \<Rightarrow> bool" where
  "is_digit c = (digit_of c \<noteq> None)"

fun digits_value :: "string \<Rightarrow> nat \<Rightarrow> nat" where
  "digits_value [] n = n"
| "digits_value (c # cs) n =
     digits_value cs (n * 10 + (case digit_of c of None \<Rightarrow> 0 | Some d \<Rightarrow> d))"

definition unit_factor :: "char \<Rightarrow> nat option" where
  "unit_factor u =
     (if u = CHR ''k'' \<or> u = CHR ''K'' then Some 1024
      else if u = CHR ''m'' \<or> u = CHR ''M'' then Some (1024 ^ 2)
      else if u = CHR ''g'' \<or> u = CHR ''G'' then Some (1024 ^ 3)
      else if u = CHR ''t'' \<or> u = CHR ''T'' then Some (1024 ^ 4)
      else None)"

text \<open>
  Modelled from the spec: \<^verbatim>\<open>units.RAMInBytes\<close> belongs to the imported package
  \<^verbatim>\<open>github.com/docker/go-units\<close>, which is not among the source files. Section 4.2 of the
  specification describes it: a quantity, integer or decimal, followed by a unit suffix
  among \<^verbatim>\<open>k K m M g G t T\<close>, each meaning a power of 1024 bytes; the result is the byte count;
  an unrecognised suffix or a malformed quantity is a UnitParse error. The model reads the
  quantity as digits with an optional fraction part, requires exactly one suffix letter,
  and rounds a fractional byte count down.
\<close>

definition RAMInBytes :: "string \<Rightarrow> error + int" where
  "RAMInBytes sizeStr =
     (let ip = takeWhile is_digit sizeStr;
          r1 = dropWhile is_digit sizeStr;
          dot = (r1 \<noteq> [] \<and> hd r1 = CHR ''.'');
          fp = (if dot then takeWhile is_digit (tl r1) else []);
          sfx = (if dot then dropWhile is_digit (tl r1) else r1)
      in if ip = [] \<or> (dot \<and> fp = []) then Inl (UnitParse sizeStr)
         else case sfx of
                [u] \<Rightarrow>
                  (case unit_factor u of
                     None \<Rightarrow> Inl (UnitParse sizeStr)
                   | Some f \<Rightarrow> Inr (int (digits_value (ip @ fp) 0 * f div 10 ^ length fp)))
              | _ \<Rightarrow> Inl (UnitParse sizeStr))"

definition MemStringorInt_UnmarshalJSON :: "int \<Rightarrow> json \<Rightarrow> int \<times> error option" where
  "MemStringorInt_UnmarshalJSON s data =
     (case unmarshal_int64 data of
        (intType, None) \<Rightarrow> (intType, None)
      | (_, Some _) \<Rightarrow>
          (case unmarshal_string data of
             (stringType, None) \<Rightarrow>
               (case RAMInBytes stringType of
                  Inl err \<Rightarrow> (s, Some err)
                | Inr intType \<Rightarrow> (intType, None))
           | (_, Some _) \<Rightarrow>
               (s, Some (ShapeMismatch ''failed to unmarshal memory string to integer''))))"

section \<open>json.Unmarshal into interface values\<close>

text \<open>
  A number stored in an \<^verbatim>\<open>interface{}\<close> becomes a \<^verbatim>\<open>float64\<close>: \<^verbatim>\<open>encoding/json\<close> calls
  \<^verbatim>\<open>strconv.ParseFloat(literal, 64)\<close> and reports an \<^verbatim>\<open>UnmarshalTypeError\<close> when that fails,
  which for a JSON number literal happens exactly when the magnitude rounds beyond the
  largest \<^verbatim>\<open>float64\<close>, that is from \<open>2^1024 - 2^970\<close> on. The literal is
  \<^verbatim>\<open>[-] digits [. digits] [(e|E) [+|-] digits]\<close>.
\<close>

definition float64_limit :: nat where
  "float64_limit = 2 ^ 1024 - 2 ^ 970"

definition ParseFloat_out_of_range :: "string \<Rightarrow> bool" where
  "ParseFloat_out_of_range lit =
     (let s1 = (if lit \<noteq> [] \<and> hd lit = CHR ''-'' then tl lit else lit);
          ip = takeWhile is_digit s1;
          r1 = dropWhile is_digit s1;
          dot = (r1 \<noteq> [] \<and> hd r1 = CHR ''.'');
          fp = (if dot then takeWhile is_digit (tl r1) else []);
          r2 = (if dot then dropWhile is_digit (tl r1) else r1);
          r3 = (if r2 = [] then [] else tl r2);
          ex = (if r3 \<noteq> [] \<and> hd r3 = CHR ''-'' then - int (digits_value (tl r3) 0)
                else if r3 \<noteq> [] \<and> hd r3 = CHR ''+'' then int (digits_value (tl r3) 0)
                else int (digits_value r3 0));
          m = digits_value (ip @ fp) 0;
          e = ex - int (length fp)
      in if 0 \<le> e then float64_limit \<le> m * 10 ^ nat e
         else float64_limit * 10 ^ nat (- e) \<le> m)"

text \<open>A Go map keeps one value for a key: the last member of the object that has it.\<close>

definition store_members :: "(string \<times> iface) list \<Rightarrow> (string \<times> iface) list" where
  "store_members ms = fold (\<lambda>(k, v) m. AList.update k v m) ms []"

text \<open>
  The generic decode: \<^verbatim>\<open>null\<close> gives \<^verbatim>\<open>nil\<close>, a boolean a \<^verbatim>\<open>bool\<close>, a number a \<^verbatim>\<open>float64\<close>,
  a string a \<^verbatim>\<open>string\<close>, a list a \<^verbatim>\<open>[]interface{}\<close>, an object a
  \<^verbatim>\<open>map[string]interface{}\<close>. A number out of range is stored as \<^verbatim>\<open>nil\<close>, the decode goes
  on, and the first such error is the one returned.
\<close>

fun unmarshal_any :: "json \<Rightarrow> iface \<times> json_error option"
  and unmarshal_elems :: "json list \<Rightarrow> iface list \<times> json_error option"
  and unmarshal_members :: "(string \<times> json) list \<Rightarrow> (string \<times> iface) list \<times> json_error option"
where
  "unmarshal_any JNull = (INil, None)"
| "unmarshal_any (JBool b) = (IBool b, None)"
| "unmarshal_any (JNumber lit) =
     (if ParseFloat_out_of_range lit then (INil, Some (UnmarshalTypeError (''number '' @ lit)))
      else (IFloat64 lit, None))"
| "unmarshal_any (JString s) = (IString s, None)"
| "unmarshal_any (JArray xs) = (case unmarshal_elems xs of (vs, e) \<Rightarrow> (ISlice vs, e))"
| "unmarshal_any (JObject kvs) =
     (case unmarshal_members kvs of (ms, e) \<Rightarrow> (IMap (store_members ms), e))"
| "unmarshal_elems [] = ([], None)"
| "unmarshal_elems (x # xs) =
     (case unmarshal_any x of
        (v, e) \<Rightarrow>
          (case unmarshal_elems xs of
             (vs, es) \<Rightarrow> (v # vs, case e of None \<Rightarrow> es | Some err \<Rightarrow> Some err)))"
| "unmarshal_members [] = ([], None)"
| "unmarshal_members ((k, x) # kvs) =
     (case unmarshal_any x of
        (v, e) \<Rightarrow>
          (case unmarshal_members kvs of
             (ms, es) \<Rightarrow> ((k, v) # ms, case e of None \<Rightarrow> es | Some err \<Rightarrow> Some err)))"

text \<open>The target \<^verbatim>\<open>var sliceType []interface{}\<close>, \<^verbatim>\<open>nil\<close> before the call. A list, the empty
  one too, stores a slice that is not \<^verbatim>\<open>nil\<close>.\<close>

definition unmarshal_slice :: "json \<Rightarrow> iface slice \<times> json_error option" where
  "unmarshal_slice j =
     (case j of
        JNull \<Rightarrow> (NilSlice, None)
      | JArray xs \<Rightarrow> (case unmarshal_elems xs of (vs, e) \<Rightarrow> (Slice vs, e))
      | _ \<Rightarrow> (NilSlice, Some (UnmarshalTypeError (json_kind j))))"

section \<open>Stringorslice\<close>

text \<open>The loop of \<^verbatim>\<open>toStrings\<close> over \<^verbatim>\<open>range s\<close>: \<open>k\<close> is the index, \<open>r\<close> the slice made
  before the loop, written at \<open>k\<close>; the first element that is no string returns.\<close>

fun toStrings_loop :: "iface list \<Rightarrow> nat \<Rightarrow> string list \<Rightarrow> string slice \<times> error option" where
  "toStrings_loop [] k r = (Slice r, None)"
| "toStrings_loop (v # vs) k r =
     (case v of
        IString sv \<Rightarrow> toStrings_loop vs (Suc k) (r[k := sv])
      | _ \<Rightarrow> (NilSlice, Some (TypeMismatch v (type_name v))))"

definition toStrings :: "iface slice \<Rightarrow> string slice \<times> error option" where
  "toStrings s =
     (if length (elems s) = 0 then (NilSlice, None)
      else toStrings_loop (elems s) 0 (replicate (length (elems s)) []))"

definition Stringorslice_UnmarshalJSON :: "string slice \<Rightarrow> json \<Rightarrow> string slice \<times> error option" where
  "Stringorslice_UnmarshalJSON s data =
     (case unmarshal_string data of
        (stringType, None) \<Rightarrow> (Slice [stringType], None)
      | (_, Some _) \<Rightarrow>
          (case unmarshal_slice data of
             (sliceType, None) \<Rightarrow>
               (case toStrings sliceType of
                  (parts, Some err) \<Rightarrow> (s, Some err)
                | (parts, None) \<Rightarrow> (parts, None))
           | (_, Some _) \<Rightarrow> (s, Some (ShapeMismatch ''failed to unmarshal string or string array''))))"

section \<open>Durationorslice\<close>

text \<open>
  A \<^verbatim>\<open>time.Duration\<close> is an \<^verbatim>\<open>int64\<close> count of nanoseconds. \<^verbatim>\<open>time.ParseDuration\<close> is the
  standard library's and is the parameter \<open>ParseDuration\<close>: \<open>None\<close> when it returns an
  error. The type switch of \<^verbatim>\<open>toDurations\<close> has the cases \<^verbatim>\<open>string\<close>, \<^verbatim>\<open>int\<close> and \<^verbatim>\<open>int64\<close>;
  every other dynamic type, \<^verbatim>\<open>float64\<close> among them, is the \<^verbatim>\<open>default\<close> case.
\<close>

fun toDurations_loop ::
  "(string \<Rightarrow> int option) \<Rightarrow> iface list \<Rightarrow> nat \<Rightarrow> int list \<Rightarrow> int slice \<times> error option" where
  "toDurations_loop ParseDuration [] k r = (Slice r, None)"
| "toDurations_loop ParseDuration (i # is) k r =
     (case i of
        IString v \<Rightarrow>
          (case ParseDuration v of
             None \<Rightarrow> (NilSlice, Some (DurationMismatch i))
           | Some dur \<Rightarrow> toDurations_loop ParseDuration is (Suc k) (r[k := dur]))
      | IInt v \<Rightarrow> toDurations_loop ParseDuration is (Suc k) (r[k := v])
      | IInt64 v \<Rightarrow> toDurations_loop ParseDuration is (Suc k) (r[k := v])
      | _ \<Rightarrow> (NilSlice, Some (DurationMismatch i)))"

definition toDurations :: "(string \<Rightarrow> int option) \<Rightarrow> iface slice \<Rightarrow> int slice \<times> error option" where
  "toDurations ParseDuration s =
     (if length (elems s) = 0 then (NilSlice, None)
      else toDurations_loop ParseDuration (elems s) 0 (replicate (length (elems s)) 0))"

text \<open>The first target is \<^verbatim>\<open>var stringType time.Duration\<close>: the type has no unmarshalling
  method of its own, so \<^verbatim>\<open>json.Unmarshal\<close> fills it as the \<^verbatim>\<open>int64\<close> it is.\<close>

definition Durationorslice_UnmarshalJSON ::
  "(string \<Rightarrow> int option) \<Rightarrow> int slice \<Rightarrow> json \<Rightarrow> int slice \<times> error option" where
  "Durationorslice_UnmarshalJSON ParseDuration s data =
     (case unmarshal_int64 data of
        (stringType, None) \<Rightarrow> (Slice [stringType], None)
      | (_, Some _) \<Rightarrow>
          (case unmarshal_slice data of
             (sliceType, None) \<Rightarrow>
               (case toDurations ParseDuration sliceType of
                  (parts, Some err) \<Rightarrow> (s, Some err)
                | (parts, None) \<Rightarrow> (parts, None))
           | (_, Some _) \<Rightarrow>
               (s, Some (ShapeMismatch ''failed to unmarshal duration string or duration array''))))"

section \<open>Decimal rendering\<close>

text \<open>The base-10 rendering of an integer that the specification's round-trip property
  speaks of: the digits of the magnitude without leading zeros, after a minus sign when the
  number is negative.\<close>

definition digit_char :: "nat \<Rightarrow> char" where
  "digit_char d = char_of (48 + d)"

fun decimal :: "nat \<Rightarrow> string" where
  "decimal n = (if n < 10 then [digit_char n] else decimal (n div 10) @ [digit_char (n mod 10)])"

definition FormatInt :: "int \<Rightarrow> string" where
  "FormatInt n = (if n < 0 then CHR ''-'' # decimal (nat (- n)) else decimal (nat n))"

definition in_int64 :: "int \<Rightarrow> bool" where
  "in_int64 n = (- (2 ^ 63) \<le> n \<and> n < 2 ^ 63)"

declare decimal.simps [simp del]

section \<open>The decimal rendering parses back\<close>

lemma maxUint64_num: "maxUint64 = 18446744073709551615"
  by (simp add: maxUint64_def)

lemma cutoff64_num: "cutoff64 = 1844674407370955162"
  by (simp add: cutoff64_def maxUint64_num)

lemma digit_of_digit_char: "d < 10 \<Longrightarrow> digit_of (digit_char d) = Some d"
  by (simp add: digit_of_def digit_char_def Let_def)

lemma of_char_digit_char: "d < 10 \<Longrightarrow> of_char (digit_char d) = (48 + d :: nat)"
  by (simp add: digit_char_def)

lemma digit_char_not_sign:
  assumes "d < 10"
  shows "digit_char d \<noteq> CHR ''-''" and "digit_char d \<noteq> CHR ''+''"
proof -
  show "digit_char d \<noteq> CHR ''-''"
  proof
    assume "digit_char d = CHR ''-''"
    then have "(of_char (digit_char d) :: nat) = of_char (CHR ''-'')" by simp
    with assms show False by (simp add: of_char_digit_char)
  qed
  show "digit_char d \<noteq> CHR ''+''"
  proof
    assume "digit_char d = CHR ''+''"
    then have "(of_char (digit_char d) :: nat) = of_char (CHR ''+'')" by simp
    with assms show False by (simp add: of_char_digit_char)
  qed
qed

lemma decimal_small: "n < 10 \<Longrightarrow> decimal n = [digit_char n]"
  by (subst decimal.simps) simp

lemma decimal_large:
  "\<not> n < 10 \<Longrightarrow> decimal n = decimal (n div 10) @ [digit_char (n mod 10)]"
  by (subst decimal.simps) simp

lemma decimal_hd: "\<exists>d cs. d < 10 \<and> decimal n = digit_char d # cs"
proof (induction n rule: decimal.induct)
  case (1 n)
  show ?case
  proof (cases "n < 10")
    case True
    then have "n < 10 \<and> decimal n = digit_char n # []" by (simp add: decimal_small)
    then show ?thesis by blast
  next
    case False
    with 1 obtain d cs where "d < 10" "decimal (n div 10) = digit_char d # cs" by blast
    with False have "d < 10 \<and> decimal n = digit_char d # (cs @ [digit_char (n mod 10)])"
      by (simp add: decimal_large)
    then show ?thesis by blast
  qed
qed

lemma ParseUint_loop_digit:
  assumes "d < 10" and "n < cutoff64" and "n * 10 + d \<le> maxUint64"
  shows "ParseUint_loop (digit_char d # cs) n = ParseUint_loop cs (n * 10 + d)"
  using assms by (simp add: digit_of_digit_char)

lemma ParseUint_loop_decimal:
  "n \<le> maxUint64 \<Longrightarrow> ParseUint_loop (decimal n @ cs) 0 = ParseUint_loop cs n"
proof (induction n arbitrary: cs rule: decimal.induct)
  case (1 n)
  show ?case
  proof (cases "n < 10")
    case True
    have "0 < cutoff64" by (simp add: cutoff64_num)
    with True 1(2) show ?thesis
      using ParseUint_loop_digit [of n 0 cs] by (simp add: decimal_small)
  next
    case False
    have le: "n div 10 \<le> maxUint64" using 1(2) by simp
    have cut: "n div 10 < cutoff64"
      using 1(2) by (simp add: cutoff64_num maxUint64_num)
    have recompose: "n div 10 * 10 + n mod 10 = n" by simp
    have "ParseUint_loop (decimal n @ cs) 0
            = ParseUint_loop (digit_char (n mod 10) # cs) (n div 10)"
      using 1(1) [OF False le, of "digit_char (n mod 10) # cs"] False
      by (simp add: decimal_large)
    also have "\<dots> = ParseUint_loop cs n"
      using ParseUint_loop_digit [of "n mod 10" "n div 10" cs] cut 1(2) recompose by simp
    finally show ?thesis .
  qed
qed

lemma ParseUint_decimal: "n \<le> maxUint64 \<Longrightarrow> ParseUint (decimal n) = Inr n"
proof -
  assume le: "n \<le> maxUint64"
  obtain d cs where "decimal n = digit_char d # cs" using decimal_hd by blast
  then have "decimal n \<noteq> []" by simp
  then show ?thesis
    using ParseUint_loop_decimal [OF le, of "[]"] by (simp add: ParseUint_def)
qed

lemma ParseInt_FormatInt: "in_int64 n \<Longrightarrow> ParseInt (FormatInt n) = (n, None)"
proof (cases "n < 0")
  case True
  assume r: "in_int64 n"
  obtain d cs where d: "d < 10" "decimal (nat (- n)) = digit_char d # cs"
    using decimal_hd by blast
  have le: "nat (- n) \<le> maxUint64"
    using r True by (simp add: in_int64_def maxUint64_num)
  have un: "ParseUint (decimal (nat (- n))) = Inr (nat (- n))"
    by (rule ParseUint_decimal [OF le])
  have bound: "\<not> (2 ^ 63 < nat (- n))"
    using r True by (simp add: in_int64_def)
  show ?thesis
    using True un bound by (simp add: ParseInt_def FormatInt_def)
next
  case False
  assume r: "in_int64 n"
  obtain d cs where d: "d < 10" "decimal (nat n) = digit_char d # cs"
    using decimal_hd by blast
  have sign: "hd (decimal (nat n)) \<noteq> CHR ''-''" "hd (decimal (nat n)) \<noteq> CHR ''+''"
    using d digit_char_not_sign by simp_all
  have ne: "decimal (nat n) \<noteq> []" using d by simp
  have le: "nat n \<le> maxUint64"
    using r False by (simp add: in_int64_def maxUint64_num)
  have un: "ParseUint (decimal (nat n)) = Inr (nat n)"
    by (rule ParseUint_decimal [OF le])
  have bound: "\<not> (2 ^ 63 \<le> nat n)"
    using r False by (simp add: in_int64_def)
  show ?thesis
    using False un bound sign ne by (simp add: ParseInt_def FormatInt_def)
qed

lemma unmarshal_int64_FormatInt:
  "in_int64 n \<Longrightarrow> unmarshal_int64 (JNumber (FormatInt n)) = (n, None)"
  by (simp add: unmarshal_int64_def ParseInt_FormatInt)

text \<open>
  Claim C6. For the ScalarOrNumber decoder (\<^verbatim>\<open>StringorInt.UnmarshalJSON\<close>) and every signed
  64-bit integer \<open>n\<close>: the bare number node \<open>n\<close> and the string node that holds the
  base-10 rendering of \<open>n\<close> both decode without error, and both to \<open>n\<close>, whatever the
  receiver held before.
\<close>

theorem StringorInt_number_and_string_agree:
  assumes "in_int64 n"
  shows "StringorInt_UnmarshalJSON s (JNumber (FormatInt n)) = (n, None)
       \<and> StringorInt_UnmarshalJSON s (JString (FormatInt n)) = (n, None)"
  using assms
  by (simp add: StringorInt_UnmarshalJSON_def unmarshal_int64_FormatInt ParseInt_FormatInt
      unmarshal_int64_def unmarshal_string_def)

text \<open>The same at \<open>n = -42\<close>, whose rendering is \<^verbatim>\<open>-42\<close>.\<close>

theorem StringorInt_number_and_string_agree_witness:
  "in_int64 (- 42)
   \<and> FormatInt (- 42) = ''-42''
   \<and> StringorInt_UnmarshalJSON 0 (JNumber ''-42'') = (- 42, None)
   \<and> StringorInt_UnmarshalJSON 0 (JString ''-42'') = (- 42, None)"
proof -
  have r: "in_int64 (- 42)" by (simp add: in_int64_def)
  have f: "FormatInt (- 42) = ''-42''"
    by (simp add: FormatInt_def decimal_large decimal_small digit_char_def char_of_def bit_0)
  show ?thesis
    using r f StringorInt_number_and_string_agree [OF r, of 0] by simp
qed

text \<open>The number node is the plain decimal literal. A literal with an exponent is no
  integer for \<^verbatim>\<open>strconv.ParseInt\<close>, whatever its value: \<^verbatim>\<open>1e2\<close> is rejected.\<close>

lemma StringorInt_exponent_literal:
  "StringorInt_UnmarshalJSON s (JNumber ''1e2'')
     = (s, Some (ShapeMismatch ''failed to unmarshal string or number''))"
  by (simp add: StringorInt_UnmarshalJSON_def unmarshal_int64_def unmarshal_string_def
      ParseInt_def ParseUint_def digit_of_def Let_def cutoff64_num maxUint64_num)

section \<open>Workspace and Runtime\<close>

text \<open>
  Claim C10. \<^verbatim>\<open>Workspace.UnmarshalJSON\<close> never fails: for every input node, every receiver
  and every behaviour of the struct decode, it returns a \<^verbatim>\<open>nil\<close> error together with some
  record.
\<close>

theorem Workspace_UnmarshalJSON_never_fails:
  "\<exists>w. Workspace_UnmarshalJSON obj v data = (w, None)"
  by (simp add: Workspace_UnmarshalJSON_def split: prod.splits option.splits)

text \<open>
  Claim C2 fails on the code. A boolean node passes the first \<^verbatim>\<open>json.Unmarshal\<close>, so the
  branch that negates it is skipped; the struct decode of a boolean fails, and the zero
  fields of \<^verbatim>\<open>out2\<close> are copied. Both \<^verbatim>\<open>true\<close> and \<^verbatim>\<open>false\<close> give \<open>Disabled = False\<close>.
\<close>

theorem Workspace_bool_gives_not_disabled:
  "Workspace_UnmarshalJSON obj v (JBool b) = (v\<lparr>Disabled := False, Path := []\<rparr>, None)"
  by (simp add: Workspace_UnmarshalJSON_def unmarshal_bool_def unmarshal_struct_def)

text \<open>The branch that negates \<^verbatim>\<open>out1\<close> is the one every node other than a boolean and
  \<^verbatim>\<open>null\<close> takes: such a node sets \<open>Disabled\<close> and leaves \<open>Path\<close> alone.\<close>

lemma Workspace_other_shapes_disable:
  "Workspace_UnmarshalJSON obj v (JNumber lit) = (v\<lparr>Disabled := True\<rparr>, None)"
  "Workspace_UnmarshalJSON obj v (JString s) = (v\<lparr>Disabled := True\<rparr>, None)"
  "Workspace_UnmarshalJSON obj v (JArray xs) = (v\<lparr>Disabled := True\<rparr>, None)"
  "Workspace_UnmarshalJSON obj v (JObject kvs) = (v\<lparr>Disabled := True\<rparr>, None)"
  by (simp_all add: Workspace_UnmarshalJSON_def unmarshal_bool_def)

lemma Workspace_null_unchanged: "Workspace_UnmarshalJSON obj v JNull = (v, None)"
  by (simp add: Workspace_UnmarshalJSON_def unmarshal_bool_def unmarshal_struct_def)

text \<open>
  Claim C1 fails on the code. A string node passes the first \<^verbatim>\<open>json.Unmarshal\<close>, so the
  \<^verbatim>\<open>switch\<close> on the keyword is skipped; the struct decode of a string fails, and the zero
  fields of \<^verbatim>\<open>out2\<close> are copied. Every string, keyword or not, decodes without error to a
  selection with no slot populated.
\<close>

theorem Runtime_string_populates_nothing:
  "Runtime_UnmarshalJSON newCloud newInstance newKubernetes obj v (JString s)
     = (v\<lparr>Cloud := None, Kubernetes := None, VM := None, Shell := False\<rparr>, None)"
  by (simp add: Runtime_UnmarshalJSON_def unmarshal_string_def unmarshal_struct_def)

text \<open>
  Claim C4 fails on the code. An object node fails the first \<^verbatim>\<open>json.Unmarshal\<close> and leaves
  \<^verbatim>\<open>out1\<close> empty, so the \<^verbatim>\<open>switch\<close> runs on the empty string and returns
  \<^verbatim>\<open>unknown runtime type: \<close>; the receiver is not touched and the object is never decoded.
\<close>

theorem Runtime_object_is_rejected:
  "Runtime_UnmarshalJSON newCloud newInstance newKubernetes obj v (JObject kvs)
     = (v, Some (UnknownShorthand []))"
  by (simp add: Runtime_UnmarshalJSON_def unmarshal_string_def)

text \<open>So does every node that is neither a string nor \<^verbatim>\<open>null\<close>: the only error this decoder
  returns is the one for the empty keyword.\<close>

lemma Runtime_other_shapes_rejected:
  "Runtime_UnmarshalJSON newCloud newInstance newKubernetes obj v (JBool b)
     = (v, Some (UnknownShorthand []))"
  "Runtime_UnmarshalJSON newCloud newInstance newKubernetes obj v (JNumber lit)
     = (v, Some (UnknownShorthand []))"
  "Runtime_UnmarshalJSON newCloud newInstance newKubernetes obj v (JArray xs)
     = (v, Some (UnknownShorthand []))"
  by (simp_all add: Runtime_UnmarshalJSON_def unmarshal_string_def)

lemma Runtime_null_unchanged:
  "Runtime_UnmarshalJSON newCloud newInstance newKubernetes obj v JNull = (v, None)"
  by (simp add: Runtime_UnmarshalJSON_def unmarshal_string_def unmarshal_struct_def)

section \<open>MemStringorInt\<close>

lemma unmarshal_int64_literal_1073741824:
  "unmarshal_int64 (JNumber ''1073741824'') = (1073741824, None)"
  by (simp add: unmarshal_int64_def ParseInt_def ParseUint_def digit_of_def Let_def
      cutoff64_num maxUint64_num)

lemma RAMInBytes_1g: "RAMInBytes ''1g'' = Inr 1073741824"
  by (simp add: RAMInBytes_def is_digit_def digit_of_def unit_factor_def Let_def)

lemma RAMInBytes_1x: "RAMInBytes ''1x'' = Inl (UnitParse ''1x'')"
  by (simp add: RAMInBytes_def is_digit_def digit_of_def unit_factor_def Let_def)

text \<open>
  Claim C7. For the ByteSize decoder (\<^verbatim>\<open>MemStringorInt.UnmarshalJSON\<close>): the string node
  \<^verbatim>\<open>"1g"\<close> decodes to 1073741824; the bare number node \<^verbatim>\<open>1073741824\<close> decodes to the same
  value; the string node \<^verbatim>\<open>"1x"\<close> fails with a UnitParse error and leaves the receiver as it
  was.
\<close>

theorem MemStringorInt_examples:
  "MemStringorInt_UnmarshalJSON s (JString ''1g'') = (1073741824, None)
   \<and> MemStringorInt_UnmarshalJSON s (JNumber ''1073741824'') = (1073741824, None)
   \<and> MemStringorInt_UnmarshalJSON s (JString ''1x'') = (s, Some (UnitParse ''1x''))"
proof -
  have g: "MemStringorInt_UnmarshalJSON s (JString ''1g'') = (1073741824, None)"
    by (simp add: MemStringorInt_UnmarshalJSON_def unmarshal_int64_def unmarshal_string_def
        RAMInBytes_1g)
  have n: "MemStringorInt_UnmarshalJSON s (JNumber ''1073741824'') = (1073741824, None)"
    by (simp add: MemStringorInt_UnmarshalJSON_def unmarshal_int64_literal_1073741824)
  have x: "MemStringorInt_UnmarshalJSON s (JString ''1x'') = (s, Some (UnitParse ''1x''))"
    by (simp add: MemStringorInt_UnmarshalJSON_def unmarshal_int64_def unmarshal_string_def
        RAMInBytes_1x)
  from g n x show ?thesis by simp
qed

text \<open>A bare number is the byte count itself, whatever its size within 64 bits.\<close>

lemma MemStringorInt_number:
  "in_int64 n \<Longrightarrow> MemStringorInt_UnmarshalJSON s (JNumber (FormatInt n)) = (n, None)"
  by (simp add: MemStringorInt_UnmarshalJSON_def unmarshal_int64_FormatInt)

section \<open>Durationorslice\<close>

text \<open>
  Claim C3 fails on the code. A string node is a type error for the \<^verbatim>\<open>time.Duration\<close>
  target and for the \<^verbatim>\<open>[]interface{}\<close> target alike, so every single string, \<^verbatim>\<open>"10s"\<close>
  included, ends at the last statement of the decoder; \<^verbatim>\<open>time.ParseDuration\<close> is not
  called.
\<close>

theorem Durationorslice_single_string_fails:
  "Durationorslice_UnmarshalJSON ParseDuration s (JString lit)
     = (s, Some (ShapeMismatch ''failed to unmarshal duration string or duration array''))"
  by (simp add: Durationorslice_UnmarshalJSON_def unmarshal_int64_def unmarshal_slice_def)

text \<open>What the singular case does accept is a bare integer, taken as nanoseconds.\<close>

lemma Durationorslice_single_number:
  "in_int64 n \<Longrightarrow>
   Durationorslice_UnmarshalJSON ParseDuration s (JNumber (FormatInt n)) = (Slice [n], None)"
  by (simp add: Durationorslice_UnmarshalJSON_def unmarshal_int64_FormatInt)

lemma ParseFloat_in_range_5: "\<not> ParseFloat_out_of_range ''5''"
  by (simp add: ParseFloat_out_of_range_def is_digit_def digit_of_def Let_def float64_limit_def)

text \<open>
  Claim C5 fails on the code. The elements of a list node reach \<^verbatim>\<open>toDurations\<close> as
  \<^verbatim>\<open>json.Unmarshal\<close> stored them in a \<^verbatim>\<open>[]interface{}\<close>: a number is a \<^verbatim>\<open>float64\<close> there,
  which is neither \<^verbatim>\<open>case int\<close> nor \<^verbatim>\<open>case int64\<close> of the type switch. The list \<^verbatim>\<open>[5]\<close> is
  rejected.
\<close>

theorem Durationorslice_integer_element_rejected:
  "Durationorslice_UnmarshalJSON ParseDuration s (JArray [JNumber ''5''])
     = (s, Some (DurationMismatch (IFloat64 ''5'')))"
  by (simp add: Durationorslice_UnmarshalJSON_def unmarshal_int64_def unmarshal_slice_def
      ParseFloat_in_range_5 toDurations_def)

section \<open>The element loops\<close>

lemma take_Suc_update: "k < length r \<Longrightarrow> take (Suc k) (r[k := a]) = take k r @ [a]"
  by (simp add: take_Suc_conv_app_nth)

text \<open>The loop invariant of \<^verbatim>\<open>toStrings\<close>: after \<open>k\<close> rounds the first \<open>k\<close> places of \<open>r\<close>
  are written, and the strings still to come fill the rest in their order.\<close>

lemma toStrings_loop_strings:
  "k + length ss = length r \<Longrightarrow>
   toStrings_loop (map IString ss) k r = (Slice (take k r @ ss), None)"
proof (induction ss arbitrary: k r)
  case Nil
  then show ?case by simp
next
  case (Cons a ss)
  from Cons.prems have k: "k < length r" by simp
  from Cons.prems have len: "Suc k + length ss = length (r[k := a])" by simp
  have "toStrings_loop (map IString (a # ss)) k r
          = toStrings_loop (map IString ss) (Suc k) (r[k := a])" by simp
  also have "\<dots> = (Slice (take (Suc k) (r[k := a]) @ ss), None)"
    by (rule Cons.IH [OF len])
  also have "take (Suc k) (r[k := a]) @ ss = take k r @ a # ss"
    using k by (simp add: take_Suc_update)
  finally show ?case .
qed

lemma toStrings_strings:
  "toStrings (Slice (map IString ss)) = ((if ss = [] then NilSlice else Slice ss), None)"
  using toStrings_loop_strings [of 0 ss "replicate (length ss) []"]
  by (simp add: toStrings_def)

text \<open>The first element that is no string ends the loop, whatever was written before.\<close>

lemma toStrings_loop_mismatch:
  "(\<forall>s. v \<noteq> IString s) \<Longrightarrow>
   toStrings_loop (map IString pre @ v # post) k r
     = (NilSlice, Some (TypeMismatch v (type_name v)))"
proof (induction pre arbitrary: k r)
  case Nil
  then show ?case by (cases v) simp_all
next
  case (Cons a pre)
  then show ?case by simp
qed

lemma toStrings_mismatch:
  "(\<forall>s. v \<noteq> IString s) \<Longrightarrow>
   toStrings (Slice (map IString pre @ v # post))
     = (NilSlice, Some (TypeMismatch v (type_name v)))"
  by (simp add: toStrings_def toStrings_loop_mismatch)

text \<open>\<^verbatim>\<open>toDurations\<close> itself takes an \<^verbatim>\<open>int64\<close> or \<^verbatim>\<open>int\<close> element as that many nanoseconds.\<close>

lemma toDurations_loop_int64:
  "k + length ns = length r \<Longrightarrow>
   toDurations_loop ParseDuration (map IInt64 ns) k r = (Slice (take k r @ ns), None)"
proof (induction ns arbitrary: k r)
  case Nil
  then show ?case by simp
next
  case (Cons a ns)
  from Cons.prems have k: "k < length r" by simp
  from Cons.prems have len: "Suc k + length ns = length (r[k := a])" by simp
  have "toDurations_loop ParseDuration (map IInt64 (a # ns)) k r
          = toDurations_loop ParseDuration (map IInt64 ns) (Suc k) (r[k := a])" by simp
  also have "\<dots> = (Slice (take (Suc k) (r[k := a]) @ ns), None)"
    by (rule Cons.IH [OF len])
  also have "take (Suc k) (r[k := a]) @ ns = take k r @ a # ns"
    using k by (simp add: take_Suc_update)
  finally show ?case .
qed

lemma toDurations_int64:
  "toDurations ParseDuration (Slice (map IInt64 ns))
     = ((if ns = [] then NilSlice else Slice ns), None)"
  using toDurations_loop_int64 [of 0 ns "replicate (length ns) 0" ParseDuration]
  by (simp add: toDurations_def)

lemma toDurations_int: "toDurations ParseDuration (Slice [IInt n]) = (Slice [n], None)"
  by (simp add: toDurations_def)

section \<open>The generic decode of a list\<close>

lemma unmarshal_elems_strings: "unmarshal_elems (map JString ss) = (map IString ss, None)"
  by (induction ss) simp_all

lemma unmarshal_elems_append:
  "fst (unmarshal_elems (xs @ ys)) = fst (unmarshal_elems xs) @ fst (unmarshal_elems ys)"
  by (induction xs) (auto split: prod.splits)

lemma unmarshal_any_not_string:
  "(\<forall>s. x \<noteq> JString s) \<Longrightarrow> \<forall>s. fst (unmarshal_any x) \<noteq> IString s"
  by (cases x) (simp_all split: prod.splits)

lemma unmarshal_elems_first_mismatch:
  "fst (unmarshal_elems (map JString pre @ x # post))
     = map IString pre @ fst (unmarshal_any x) # fst (unmarshal_elems post)"
  by (simp add: unmarshal_elems_append unmarshal_elems_strings split: prod.splits)

section \<open>Stringorslice\<close>

lemma unmarshal_slice_JArray:
  "unmarshal_slice (JArray xs) = (Slice (fst (unmarshal_elems xs)), snd (unmarshal_elems xs))"
  by (simp add: unmarshal_slice_def split: prod.splits)

lemma Stringorslice_strings:
  "Stringorslice_UnmarshalJSON s0 (JArray (map JString ss))
     = ((if ss = [] then NilSlice else Slice ss), None)"
  by (simp add: Stringorslice_UnmarshalJSON_def unmarshal_string_def unmarshal_slice_JArray
      unmarshal_elems_strings toStrings_strings)

text \<open>
  Claim C8, as amended. For the StringOrList decoder (\<^verbatim>\<open>Stringorslice.UnmarshalJSON\<close>): a
  single string node \<open>s\<close> decodes to the one-element sequence \<open>[s]\<close>; a list node with at
  least one element, all of them strings, decodes to exactly those strings in the order of
  the list; the empty list decodes without error to the \<^verbatim>\<open>nil\<close> slice, the absent value of
  length 0, and not to an allocated empty sequence.
\<close>

theorem Stringorslice_string_list_and_empty:
  "Stringorslice_UnmarshalJSON s0 (JString s) = (Slice [s], None)
   \<and> Stringorslice_UnmarshalJSON s0 (JArray (map JString (a # ss))) = (Slice (a # ss), None)
   \<and> Stringorslice_UnmarshalJSON s0 (JArray []) = (NilSlice, None)
   \<and> length (elems (fst (Stringorslice_UnmarshalJSON s0 (JArray [])))) = 0"
proof -
  have one: "Stringorslice_UnmarshalJSON s0 (JString s) = (Slice [s], None)"
    by (simp add: Stringorslice_UnmarshalJSON_def unmarshal_string_def)
  have many: "Stringorslice_UnmarshalJSON s0 (JArray (map JString (a # ss))) = (Slice (a # ss), None)"
    using Stringorslice_strings [of s0 "a # ss"] by simp
  have none: "Stringorslice_UnmarshalJSON s0 (JArray []) = (NilSlice, None)"
    using Stringorslice_strings [of s0 "[]"] by simp
  from one many none show ?thesis by simp
qed

text \<open>
  Claim C8 as stated fails at the empty list: \<^verbatim>\<open>toStrings\<close> returns \<^verbatim>\<open>nil, nil\<close> for a slice of
  length 0, and the decoder assigns that \<^verbatim>\<open>nil\<close> to the receiver, here over the sequence
  it held. The result is not the allocated empty sequence.
\<close>

theorem Stringorslice_empty_list_counterexample:
  "Stringorslice_UnmarshalJSON (Slice [''old'']) (JArray []) = (NilSlice, None)
   \<and> fst (Stringorslice_UnmarshalJSON (Slice [''old'']) (JArray [])) \<noteq> Slice []"
  by (simp add: Stringorslice_UnmarshalJSON_def unmarshal_string_def unmarshal_slice_def
      toStrings_def)

text \<open>A list with an element that is no string never gets past the decoder: when the
  generic decode fails, the last statement returns its error.\<close>

lemma Stringorslice_generic_decode_fails:
  "snd (unmarshal_slice (JArray xs)) \<noteq> None \<Longrightarrow>
   Stringorslice_UnmarshalJSON s0 (JArray xs)
     = (s0, Some (ShapeMismatch ''failed to unmarshal string or string array''))"
  by (auto simp add: Stringorslice_UnmarshalJSON_def unmarshal_string_def
      split: prod.splits option.splits)

lemma Stringorslice_mismatch_after_generic_decode:
  assumes "snd (unmarshal_slice (JArray (map JString pre @ x # post))) = None"
    and "\<forall>s. x \<noteq> JString s"
  shows "Stringorslice_UnmarshalJSON s0 (JArray (map JString pre @ x # post))
           = (s0, Some (TypeMismatch (fst (unmarshal_any x)) (type_name (fst (unmarshal_any x)))))"
proof -
  let ?xs = "map JString pre @ x # post"
  let ?v = "fst (unmarshal_any x)"
  have v: "\<forall>s. ?v \<noteq> IString s"
    using assms(2) by (rule unmarshal_any_not_string)
  have sl: "unmarshal_slice (JArray ?xs)
              = (Slice (map IString pre @ ?v # fst (unmarshal_elems post)), None)"
    using assms(1) by (simp add: unmarshal_slice_JArray unmarshal_elems_first_mismatch)
  have ts: "toStrings (Slice (map IString pre @ ?v # fst (unmarshal_elems post)))
              = (NilSlice, Some (TypeMismatch ?v (type_name ?v)))"
    using v by (rule toStrings_mismatch)
  show ?thesis
    using sl ts by (simp add: Stringorslice_UnmarshalJSON_def unmarshal_string_def)
qed

text \<open>
  Claim C9, as amended. For the StringOrList decoder: if any element of a list node is not
  a string, the whole decode fails with a single error and no partial sequence is
  produced: the receiver keeps what it held, no prefix of converted elements is returned
  and no default is substituted. The error is the TypeMismatch that names the first
  non-string element and its actual type whenever the list passes the generic decode (no
  number in it, at any depth, lies beyond the \<^verbatim>\<open>float64\<close> range); for a list that does not,
  it is the decoder's error for a node of the wrong shape.
\<close>

theorem Stringorslice_non_string_element_fails:
  assumes "\<forall>s. x \<noteq> JString s"
  shows "Stringorslice_UnmarshalJSON s0 (JArray (map JString pre @ x # post))
           = (s0,
              if snd (unmarshal_slice (JArray (map JString pre @ x # post))) = None
              then Some (TypeMismatch (fst (unmarshal_any x)) (type_name (fst (unmarshal_any x))))
              else Some (ShapeMismatch ''failed to unmarshal string or string array''))"
proof (cases "snd (unmarshal_slice (JArray (map JString pre @ x # post))) = None")
  case True
  then show ?thesis
    using Stringorslice_mismatch_after_generic_decode [OF True assms, of s0] by simp
next
  case False
  then show ?thesis
    using Stringorslice_generic_decode_fails [OF False, of s0] by simp
qed

lemma ParseFloat_in_range_1: "\<not> ParseFloat_out_of_range ''1''"
  by (simp add: ParseFloat_out_of_range_def is_digit_def digit_of_def Let_def float64_limit_def)

lemma ParseFloat_out_of_range_1e999: "ParseFloat_out_of_range ''1e999''"
  by (simp add: ParseFloat_out_of_range_def is_digit_def digit_of_def Let_def float64_limit_def)

text \<open>The same at the list \<^verbatim>\<open>["a", 1, "b"]\<close>, where the error names the \<^verbatim>\<open>float64\<close> read from
  \<^verbatim>\<open>1\<close>, and at the list \<^verbatim>\<open>["a", true, 1e999]\<close>, where the generic decode fails on the last
  element; the receiver is unchanged in both.\<close>

theorem Stringorslice_non_string_element_fails_witness:
  "(\<forall>s. JNumber ''1'' \<noteq> JString s)
   \<and> Stringorslice_UnmarshalJSON (Slice [''old''])
         (JArray [JString ''a'', JNumber ''1'', JString ''b''])
       = (Slice [''old''], Some (TypeMismatch (IFloat64 ''1'') ''float64''))
   \<and> (\<forall>s. JBool True \<noteq> JString s)
   \<and> Stringorslice_UnmarshalJSON (Slice [''old''])
         (JArray [JString ''a'', JBool True, JNumber ''1e999''])
       = (Slice [''old''], Some (ShapeMismatch ''failed to unmarshal string or string array''))"
proof -
  have h1: "\<forall>s. JNumber ''1'' \<noteq> JString s" by simp
  have h2: "\<forall>s. JBool True \<noteq> JString s" by simp
  have ok: "snd (unmarshal_slice (JArray [JString ''a'', JNumber ''1'', JString ''b''])) = None"
    by (simp add: unmarshal_slice_def ParseFloat_in_range_1)
  have bad: "snd (unmarshal_slice (JArray [JString ''a'', JBool True, JNumber ''1e999''])) \<noteq> None"
    by (simp add: unmarshal_slice_def ParseFloat_out_of_range_1e999)
  have t1: "Stringorslice_UnmarshalJSON (Slice [''old''])
              (JArray [JString ''a'', JNumber ''1'', JString ''b''])
            = (Slice [''old''], Some (TypeMismatch (IFloat64 ''1'') ''float64''))"
    using Stringorslice_non_string_element_fails
      [OF h1, of "Slice [''old'']" "[''a'']" "[JString ''b'']"] ok
    by (simp add: ParseFloat_in_range_1)
  have t2: "Stringorslice_UnmarshalJSON (Slice [''old''])
              (JArray [JString ''a'', JBool True, JNumber ''1e999''])
            = (Slice [''old''], Some (ShapeMismatch ''failed to unmarshal string or string array''))"
    using Stringorslice_non_string_element_fails
      [OF h2, of "Slice [''old'']" "[''a'']" "[JNumber ''1e999'']"] bad
    by simp
  from h1 h2 t1 t2 show ?thesis by simp
qed

text \<open>
  Claim C9 as stated fails at the list \<^verbatim>\<open>[1e999]\<close>: its element is not a string, but the
  generic decode of the list already fails on the number, and the decoder ends at its last
  statement with the error for a node of the wrong shape, not with the error that names the
  element.
\<close>

theorem Stringorslice_type_mismatch_counterexample:
  "Stringorslice_UnmarshalJSON (Slice [''old'']) (JArray [JNumber ''1e999''])
     = (Slice [''old''], Some (ShapeMismatch ''failed to unmarshal string or string array''))
   \<and> snd (Stringorslice_UnmarshalJSON (Slice [''old'']) (JArray [JNumber ''1e999'']))
       \<noteq> Some (TypeMismatch (IFloat64 ''1e999'') (type_name (IFloat64 ''1e999'')))"
  by (simp add: Stringorslice_UnmarshalJSON_def unmarshal_string_def unmarshal_slice_def
      ParseFloat_out_of_range_1e999)

end
